theory Spec2Isabelle
  imports Main "HOL-Library.Word" "HOL-Library.Signed_Division" "HOL-Library.AList"
begin

section \<open>The snapshot collector of the elasticsearch input\<close>

text \<open>
  A shallow embedding of \<^verbatim>\<open>inputs/elasticsearch/collector/snapshots.go\<close>.
  The collector asks a cluster for its snapshot repositories, asks for the snapshots of
  each, and turns the answers into samples, one per metric descriptor.
\<close>

subsection \<open>The decoded responses\<close>

text \<open>
  The response structs are declared in another file of the package; the fields below are
  the ones \<^verbatim>\<open>snapshots.go\<close> reads. The Go \<^verbatim>\<open>int64\<close> fields are 64-bit
  words, read as two's complement by \<open>sint\<close>; the elements of \<^verbatim>\<open>Failures\<close>, of
  which only the number is used, are their JSON texts.
\<close>

type_synonym int64 = "64 word"

record SnapshotShards =
  Total :: int64
  Failed :: int64
  Successful :: int64

record SnapshotStatDataResponse =
  Version :: string
  Indices :: "string list"
  State :: string
  StartTimeInMillis :: int64
  EndTimeInMillis :: int64
  Failures :: "string list"
  Shards :: SnapshotShards

record SnapshotStatsResponse =
  Snapshots :: "SnapshotStatDataResponse list"

text \<open>
  The repository catalog is a Go map from the repository's name to its metadata, which the
  collector never reads. A Go map is an association list with distinct keys here;
  \<^verbatim>\<open>range\<close> visits its keys in an order the runtime chooses (\<open>range_order\<close> below).
\<close>

type_synonym SnapshotRepositoriesResponse = "(string \<times> string) list"

subsection \<open>Values, descriptors and samples\<close>

text \<open>
  \<open>Float64 n\<close> is the \<^verbatim>\<open>float64\<close> that the conversion \<^verbatim>\<open>float64(n)\<close> of the
  Go integer \<open>n\<close> gives. Every value the collector emits is such a conversion, and the
  conversion itself is not interpreted.
\<close>

datatype float64 = Float64 int

datatype ValueType = CounterValue | GaugeValue | UntypedValue

text \<open>\<^verbatim>\<open>prometheus.Desc\<close>, with the arguments of \<^verbatim>\<open>prometheus.NewDesc\<close>; the constant labels are nil throughout.\<close>

record Desc =
  fqName :: string
  helpText :: string
  variableLabels :: "string list"

definition NewDesc :: "string \<Rightarrow> string \<Rightarrow> string list \<Rightarrow> Desc" where
  "NewDesc name hlp labels = \<lparr>fqName = name, helpText = hlp, variableLabels = labels\<rparr>"

text \<open>\<^verbatim>\<open>prometheus.BuildFQName\<close> joins the non-empty parts with an underscore.\<close>

definition BuildFQName :: "string \<Rightarrow> string \<Rightarrow> string \<Rightarrow> string" where
  "BuildFQName nspace subsystem name =
     (if name = [] then []
      else if nspace \<noteq> [] \<and> subsystem \<noteq> [] then nspace @ ''_'' @ subsystem @ ''_'' @ name
      else if nspace \<noteq> [] then nspace @ ''_'' @ name
      else if subsystem \<noteq> [] then subsystem @ ''_'' @ name
      else name)"

text \<open>
  A sample, as \<^verbatim>\<open>prometheus.MustNewConstMetric\<close> builds it from its four arguments.
  The library panics when the label values are not as many as the labels of the
  descriptor; the collector passes as many (\<open>sample_label_counts\<close> below), and the
  check is not part of the model.
\<close>

record Metric =
  metricDesc :: Desc
  valueType :: ValueType
  metricValue :: float64
  labelValues :: "string list"

definition MustNewConstMetric :: "Desc \<Rightarrow> ValueType \<Rightarrow> float64 \<Rightarrow> string list \<Rightarrow> Metric" where
  "MustNewConstMetric d t v lvs =
     \<lparr>metricDesc = d, valueType = t, metricValue = v, labelValues = lvs\<rparr>"

record snapshotMetric =
  Type :: ValueType
  Desc :: Desc
  Value :: "SnapshotStatDataResponse \<Rightarrow> float64"
  Labels :: "string \<Rightarrow> SnapshotStatDataResponse \<Rightarrow> string list"

record repositoryMetric =
  Type :: ValueType
  Desc :: Desc
  Value :: "SnapshotStatsResponse \<Rightarrow> float64"
  Labels :: "string \<Rightarrow> string list"

definition defaultSnapshotLabels :: "string list" where
  "defaultSnapshotLabels = [''repository'', ''state'', ''version'']"

definition defaultSnapshotLabelValues :: "string \<Rightarrow> SnapshotStatDataResponse \<Rightarrow> string list" where
  "defaultSnapshotLabelValues repositoryName snapshotStats =
     [repositoryName, State snapshotStats, Version snapshotStats]"

definition defaultSnapshotRepositoryLabels :: "string list" where
  "defaultSnapshotRepositoryLabels = [''repository'']"

definition defaultSnapshotRepositoryLabelValues :: "string \<Rightarrow> string list" where
  "defaultSnapshotRepositoryLabelValues repositoryName = [repositoryName]"

subsection \<open>The collector and what it relies on\<close>

text \<open>
  \<^verbatim>\<open>url.URL\<close>, with the parts the collector reads: the scheme, what
  \<^verbatim>\<open>Hostname()\<close> and \<^verbatim>\<open>Port()\<close> return, and the path.
\<close>

record url =
  Scheme :: string
  Hostname :: string
  Port :: string
  Path :: string

text \<open>
  An \<^verbatim>\<open>http.Response\<close>: its status code, what \<^verbatim>\<open>io.ReadAll\<close> gives on its
  body (an error message or the bytes) and what closing the body gives (an error message
  or nothing). \<^verbatim>\<open>client.Get\<close> returns an error message or a response.
\<close>

record response =
  StatusCode :: int
  Body_ReadAll :: "string + string"
  Body_Close :: "string option"

datatype get_result = GetErr string | GetOk response

text \<open>
  The Go errors the collector returns: the two it formats with \<^verbatim>\<open>fmt.Errorf\<close>, and
  an error of a library passed on as it is.
\<close>

datatype error =
    FailedToGet string string string string string
  | HTTPRequestFailed int
  | LibraryError string

text \<open>A line of \<^verbatim>\<open>log.Println\<close>: the text and the error printed after it.\<close>

type_synonym log_line = "string \<times> error"

text \<open>
  What a call leaves behind: the URLs requested, the URLs whose response body has been
  closed, and the lines logged, each oldest first.
\<close>

record world =
  requests :: "string list"
  closes :: "string list"
  logs :: "log_line list"

text \<open>
  What the collector uses and does not define: \<^verbatim>\<open>URL.String\<close>, \<^verbatim>\<open>path.Join\<close>,
  \<^verbatim>\<open>json.Unmarshal\<close> at the two destination types (an error message or the decoded
  value), and the order in which \<^verbatim>\<open>range\<close> visits the keys of a map. The first
  argument of \<open>range_order\<close> tells the \<^verbatim>\<open>range\<close> statements of a cycle apart: 0 is
  the one of \<^verbatim>\<open>fetchAndDecodeSnapshotsStats\<close>, 1 the one of \<^verbatim>\<open>Collect\<close>.
\<close>

record env =
  url_String :: "url \<Rightarrow> string"
  path_Join :: "string list \<Rightarrow> string"
  unmarshal_repositories :: "string \<Rightarrow> string + SnapshotRepositoriesResponse"
  unmarshal_stats :: "string \<Rightarrow> string + SnapshotStatsResponse"
  range_order :: "nat \<Rightarrow> string list \<Rightarrow> string list"

text \<open>
  \<^verbatim>\<open>for k, v := range m\<close>, as the \<open>i\<close>-th \<^verbatim>\<open>range\<close> statement: the entries of
  the map \<open>m\<close> in the order the runtime chooses for its keys.
\<close>

definition go_range :: "env \<Rightarrow> nat \<Rightarrow> (string \<times> 'v) list \<Rightarrow> (string \<times> 'v) list" where
  "go_range e i m =
     List.map_filter (\<lambda>k. map_option (Pair k) (map_of m k)) (range_order e i (map fst m))"

text \<open>
  The collector. Its \<open>client\<close> is what \<^verbatim>\<open>client.Get\<close> returns for each URL in the
  cycle at hand.
\<close>

record Snapshots =
  client :: "string \<Rightarrow> get_result"
  url :: url
  snapshotMetrics :: "snapshotMetric list"
  repositoryMetrics :: "repositoryMetric list"

text \<open>
  The loop of the third repository metric (lines 190 to 195): \<open>i\<close> runs from the last
  index down to 0, so every index it reads is one of the sequence.
\<close>

function latestLoop :: "SnapshotStatDataResponse list \<Rightarrow> int \<Rightarrow> float64" where
  "latestLoop snaps i =
     (if i \<ge> 0 then
        (if State (snaps ! nat i) = ''SUCCESS'' \<or> State (snaps ! nat i) = ''PARTIAL''
         then Float64 (sint (StartTimeInMillis (snaps ! nat i)) sdiv 1000)
         else latestLoop snaps (i - 1))
      else Float64 0)"
  by pat_completeness auto
termination
  by (relation "measure (\<lambda>(snaps, i). nat (i + 1))") auto

declare latestLoop.simps [simp del]

text \<open>
  \<^verbatim>\<open>NewSnapshots\<close>. The package constant \<^verbatim>\<open>namespace\<close> is declared in another
  file and is the first argument here.
\<close>

definition NewSnapshots :: "string \<Rightarrow> (string \<Rightarrow> get_result) \<Rightarrow> url \<Rightarrow> Snapshots" where
  "NewSnapshots nspace cl u = \<lparr>
     client = cl,
     url = u,
     snapshotMetrics = [
       \<lparr>snapshotMetric.Type = GaugeValue,
        snapshotMetric.Desc = NewDesc
          (BuildFQName nspace ''snapshot_stats'' ''snapshot_number_of_indices'')
          ''Number of indices in the last snapshot''
          defaultSnapshotLabels,
        snapshotMetric.Value = (\<lambda>snapshotStats. Float64 (int (length (Indices snapshotStats)))),
        snapshotMetric.Labels = defaultSnapshotLabelValues\<rparr>,
       \<lparr>snapshotMetric.Type = GaugeValue,
        snapshotMetric.Desc = NewDesc
          (BuildFQName nspace ''snapshot_stats'' ''snapshot_start_time_timestamp'')
          ''Last snapshot start timestamp''
          defaultSnapshotLabels,
        snapshotMetric.Value =
          (\<lambda>snapshotStats. Float64 (sint (StartTimeInMillis snapshotStats) sdiv 1000)),
        snapshotMetric.Labels = defaultSnapshotLabelValues\<rparr>,
       \<lparr>snapshotMetric.Type = GaugeValue,
        snapshotMetric.Desc = NewDesc
          (BuildFQName nspace ''snapshot_stats'' ''snapshot_end_time_timestamp'')
          ''Last snapshot end timestamp''
          defaultSnapshotLabels,
        snapshotMetric.Value =
          (\<lambda>snapshotStats. Float64 (sint (EndTimeInMillis snapshotStats) sdiv 1000)),
        snapshotMetric.Labels = defaultSnapshotLabelValues\<rparr>,
       \<lparr>snapshotMetric.Type = GaugeValue,
        snapshotMetric.Desc = NewDesc
          (BuildFQName nspace ''snapshot_stats'' ''snapshot_number_of_failures'')
          ''Last snapshot number of failures''
          defaultSnapshotLabels,
        snapshotMetric.Value = (\<lambda>snapshotStats. Float64 (int (length (Failures snapshotStats)))),
        snapshotMetric.Labels = defaultSnapshotLabelValues\<rparr>,
       \<lparr>snapshotMetric.Type = GaugeValue,
        snapshotMetric.Desc = NewDesc
          (BuildFQName nspace ''snapshot_stats'' ''snapshot_total_shards'')
          ''Last snapshot total shards''
          defaultSnapshotLabels,
        snapshotMetric.Value = (\<lambda>snapshotStats. Float64 (sint (Total (Shards snapshotStats)))),
        snapshotMetric.Labels = defaultSnapshotLabelValues\<rparr>,
       \<lparr>snapshotMetric.Type = GaugeValue,
        snapshotMetric.Desc = NewDesc
          (BuildFQName nspace ''snapshot_stats'' ''snapshot_failed_shards'')
          ''Last snapshot failed shards''
          defaultSnapshotLabels,
        snapshotMetric.Value = (\<lambda>snapshotStats. Float64 (sint (Failed (Shards snapshotStats)))),
        snapshotMetric.Labels = defaultSnapshotLabelValues\<rparr>,
       \<lparr>snapshotMetric.Type = GaugeValue,
        snapshotMetric.Desc = NewDesc
          (BuildFQName nspace ''snapshot_stats'' ''snapshot_successful_shards'')
          ''Last snapshot successful shards''
          defaultSnapshotLabels,
        snapshotMetric.Value =
          (\<lambda>snapshotStats. Float64 (sint (Successful (Shards snapshotStats)))),
        snapshotMetric.Labels = defaultSnapshotLabelValues\<rparr>],
     repositoryMetrics = [
       \<lparr>repositoryMetric.Type = GaugeValue,
        repositoryMetric.Desc = NewDesc
          (BuildFQName nspace ''snapshot_stats'' ''number_of_snapshots'')
          ''Number of snapshots in a repository''
          defaultSnapshotRepositoryLabels,
        repositoryMetric.Value =
          (\<lambda>snapshotsStats. Float64 (int (length (Snapshots snapshotsStats)))),
        repositoryMetric.Labels = defaultSnapshotRepositoryLabelValues\<rparr>,
       \<lparr>repositoryMetric.Type = GaugeValue,
        repositoryMetric.Desc = NewDesc
          (BuildFQName nspace ''snapshot_stats'' ''oldest_snapshot_timestamp'')
          ''Timestamp of the oldest snapshot''
          defaultSnapshotRepositoryLabels,
        repositoryMetric.Value =
          (\<lambda>snapshotsStats.
             if length (Snapshots snapshotsStats) = 0 then Float64 0
             else Float64 (sint (StartTimeInMillis (Snapshots snapshotsStats ! 0)) sdiv 1000)),
        repositoryMetric.Labels = defaultSnapshotRepositoryLabelValues\<rparr>,
       \<lparr>repositoryMetric.Type = GaugeValue,
        repositoryMetric.Desc = NewDesc
          (BuildFQName nspace ''snapshot_stats'' ''latest_snapshot_timestamp_seconds'')
          ''Timestamp of the latest SUCCESS or PARTIAL snapshot''
          defaultSnapshotRepositoryLabels,
        repositoryMetric.Value =
          (\<lambda>snapshotsStats.
             latestLoop (Snapshots snapshotsStats) (int (length (Snapshots snapshotsStats)) - 1)),
        repositoryMetric.Labels = defaultSnapshotRepositoryLabelValues\<rparr>]\<rparr>"

text \<open>
  \<^verbatim>\<open>Describe\<close> sends to the channel \<open>ch\<close>; a channel is the list of what was sent,
  oldest first. Like the other methods it takes the world and returns it; it has no
  statement that requests, closes or logs, so the world comes back as it was.
\<close>

definition Describe :: "Snapshots \<Rightarrow> world \<Rightarrow> Desc list \<Rightarrow> world \<times> Desc list" where
  "Describe s w ch =
     (w, (ch @ map snapshotMetric.Desc (snapshotMetrics s))
           @ map repositoryMetric.Desc (repositoryMetrics s))"

subsection \<open>Fetching\<close>

text \<open>
  The function deferred in \<^verbatim>\<open>getAndParseURL\<close> (lines 222 to 227): it closes the body
  of the response to the request for \<open>target\<close>, and logs a failure to close.
\<close>

definition deferredClose :: "string \<Rightarrow> response \<Rightarrow> world \<Rightarrow> world" where
  "deferredClose target res w =
     (let w1 = w\<lparr>closes := closes w @ [target]\<rparr>
      in case Body_Close res of
           None \<Rightarrow> w1
         | Some err \<Rightarrow>
             w1\<lparr>logs := logs w1 @ [(''failed to close http.Client, err: '', LibraryError err)]\<rparr>)"

text \<open>
  What \<^verbatim>\<open>getAndParseURL\<close> does with a response (lines 229 to 241); \<open>decode\<close> is
  \<^verbatim>\<open>json.Unmarshal\<close> at the type of the destination \<^verbatim>\<open>data\<close>, and the decoded
  value is returned.
\<close>

definition parseResponse :: "response \<Rightarrow> (string \<Rightarrow> string + 'a) \<Rightarrow> error + 'a" where
  "parseResponse res decode =
     (if StatusCode res \<noteq> 200 then Inl (HTTPRequestFailed (StatusCode res))
      else case Body_ReadAll res of
             Inl err \<Rightarrow> Inl (LibraryError err)
           | Inr bts \<Rightarrow>
               (case decode bts of
                  Inl err \<Rightarrow> Inl (LibraryError err)
                | Inr data \<Rightarrow> Inr data))"

text \<open>
  \<^verbatim>\<open>getAndParseURL\<close>: the deferred function runs after the result is computed, on
  every return that follows the \<^verbatim>\<open>defer\<close> statement. It assigns to the local
  \<^verbatim>\<open>err\<close>, which is not the function's result.
\<close>

definition getAndParseURL ::
  "Snapshots \<Rightarrow> env \<Rightarrow> url \<Rightarrow> (string \<Rightarrow> string + 'a) \<Rightarrow> world \<Rightarrow> world \<times> (error + 'a)" where
  "getAndParseURL s e u decode w =
     (let target = url_String e u;
          w1 = w\<lparr>requests := requests w @ [target]\<rparr>
      in case client s target of
           GetErr err \<Rightarrow>
             (w1, Inl (FailedToGet (Scheme u) (Hostname u) (Port u) (Path u) err))
         | GetOk res \<Rightarrow>
             (deferredClose target res w1, parseResponse res decode))"

text \<open>The URLs of the two endpoints, as lines 247 to 248 and 255 to 256 build them.\<close>

definition catalogURL :: "Snapshots \<Rightarrow> env \<Rightarrow> url" where
  "catalogURL s e = (url s)\<lparr>Path := path_Join e [Path (url s), ''/_snapshot'']\<rparr>"

definition detailURL :: "Snapshots \<Rightarrow> env \<Rightarrow> string \<Rightarrow> url" where
  "detailURL s e repository =
     (url s)\<lparr>Path := path_Join e [Path (url s), ''/_snapshot'', repository, ''/_all'']\<rparr>"

text \<open>The loop of \<^verbatim>\<open>fetchAndDecodeSnapshotsStats\<close> (lines 254 to 263) over the repositories left to visit.\<close>

fun fetchLoop ::
  "Snapshots \<Rightarrow> env \<Rightarrow> string list \<Rightarrow> world \<Rightarrow> (string \<times> SnapshotStatsResponse) list
     \<Rightarrow> world \<times> (string \<times> SnapshotStatsResponse) list" where
  "fetchLoop s e [] w mssr = (w, mssr)"
| "fetchLoop s e (repository # rest) w mssr =
     (case getAndParseURL s e (detailURL s e repository) (unmarshal_stats e) w of
        (w1, Inl err) \<Rightarrow> fetchLoop s e rest w1 mssr
      | (w1, Inr ssr) \<Rightarrow> fetchLoop s e rest w1 (AList.update repository ssr mssr))"

definition fetchAndDecodeSnapshotsStats ::
  "Snapshots \<Rightarrow> env \<Rightarrow> world \<Rightarrow> world \<times> (error + (string \<times> SnapshotStatsResponse) list)" where
  "fetchAndDecodeSnapshotsStats s e w =
     (case getAndParseURL s e (catalogURL s e) (unmarshal_repositories e) w of
        (w1, Inl err) \<Rightarrow> (w1, Inl err)
      | (w1, Inr srr) \<Rightarrow>
          (case fetchLoop s e (map fst (go_range e 0 srr)) w1 [] of
             (w2, mssr) \<Rightarrow> (w2, Inr mssr)))"

subsection \<open>Collecting\<close>

text \<open>
  The method \<^verbatim>\<open>Collect\<close> is \<open>Collect_Snapshots\<close> here, \<open>Collect\<close> being the set
  comprehension of HOL.
\<close>

text \<open>One round of the loop of \<^verbatim>\<open>Collect\<close> (lines 280 to 300), for one repository.\<close>

definition collectRepository ::
  "Snapshots \<Rightarrow> string \<Rightarrow> SnapshotStatsResponse \<Rightarrow> Metric list \<Rightarrow> Metric list" where
  "collectRepository s repositoryName snapshotStats ch =
     (let ch1 = ch @ map (\<lambda>metric. MustNewConstMetric
                     (repositoryMetric.Desc metric)
                     (repositoryMetric.Type metric)
                     (repositoryMetric.Value metric snapshotStats)
                     (repositoryMetric.Labels metric repositoryName)) (repositoryMetrics s)
      in if length (Snapshots snapshotStats) = 0 then ch1
         else
           (let lastSnapshot = Snapshots snapshotStats ! (length (Snapshots snapshotStats) - 1)
            in ch1 @ map (\<lambda>metric. MustNewConstMetric
                     (snapshotMetric.Desc metric)
                     (snapshotMetric.Type metric)
                     (snapshotMetric.Value metric lastSnapshot)
                     (snapshotMetric.Labels metric repositoryName lastSnapshot))
                   (snapshotMetrics s)))"

fun collectLoop ::
  "Snapshots \<Rightarrow> (string \<times> SnapshotStatsResponse) list \<Rightarrow> Metric list \<Rightarrow> Metric list" where
  "collectLoop s [] ch = ch"
| "collectLoop s ((repositoryName, snapshotStats) # rest) ch =
     collectLoop s rest (collectRepository s repositoryName snapshotStats ch)"

definition Collect_Snapshots :: "Snapshots \<Rightarrow> env \<Rightarrow> world \<Rightarrow> Metric list \<Rightarrow> world \<times> Metric list" where
  "Collect_Snapshots s e w ch =
     (case fetchAndDecodeSnapshotsStats s e w of
        (w1, Inl err) \<Rightarrow>
          (w1\<lparr>logs := logs w1 @ [(''failed to fetch and decode snapshot stats, err: '', err)]\<rparr>,
           ch)
      | (w1, Inr snapshotsStatsResp) \<Rightarrow>
          (w1, collectLoop s (go_range e 1 snapshotsStatsResp) ch))"

subsection \<open>The specification's wording of the latest qualifying snapshot\<close>

text \<open>
  The specification describes the third repository metric in words: go through the
  sequence from its end, take the first record whose state is SUCCESS or PARTIAL and
  return its start time in seconds, and return 0 when there is none. \<open>latestSpec\<close>
  follows these words; \<open>latestLoop\<close> above follows the code.
\<close>

definition qualifies :: "SnapshotStatDataResponse \<Rightarrow> bool" where
  "qualifies snap = (State snap = ''SUCCESS'' \<or> State snap = ''PARTIAL'')"

definition startSeconds :: "SnapshotStatDataResponse \<Rightarrow> int" where
  "startSeconds snap = sint (StartTimeInMillis snap) sdiv 1000"

definition latestSpec :: "SnapshotStatDataResponse list \<Rightarrow> float64" where
  "latestSpec snaps =
     (case find qualifies (rev snaps) of
        None \<Rightarrow> Float64 0
      | Some snap \<Rightarrow> Float64 (startSeconds snap))"

subsection \<open>A cluster to run the collector on\<close>

text \<open>
  A cluster at \<^verbatim>\<open>http://es:9200\<close> with two repositories. The request for the
  snapshots of R1 is answered with status 500, the one for R2 with three snapshots: a
  failed one, a successful one and a failed one. \<open>example_path_Join\<close> and
  \<open>example_url_String\<close> agree with \<^verbatim>\<open>path.Join\<close> and \<^verbatim>\<open>URL.String\<close> on the
  paths of this cluster, and the runtime visits the keys of a map last to first.
\<close>

definition exampleURL :: url where
  "exampleURL = \<lparr>Scheme = ''http'', Hostname = ''es'', Port = ''9200'', Path = []\<rparr>"

definition example_url_String :: "url \<Rightarrow> string" where
  "example_url_String u = Scheme u @ ''://'' @ Hostname u @ '':'' @ Port u @ Path u"

definition example_path_Join :: "string list \<Rightarrow> string" where
  "example_path_Join elems =
     concat (map (\<lambda>el. if el = [] then [] else if hd el = CHR ''/'' then el else CHR ''/'' # el)
               elems)"

definition snapshotA :: SnapshotStatDataResponse where
  "snapshotA = \<lparr>Version = ''7.10.2'', Indices = [''logs-1''], State = ''FAILED'',
     StartTimeInMillis = 100, EndTimeInMillis = 1100, Failures = [''shard 0 failed''],
     Shards = \<lparr>Total = 1, Failed = 1, Successful = 0\<rparr>\<rparr>"

definition snapshotB :: SnapshotStatDataResponse where
  "snapshotB = \<lparr>Version = ''7.10.2'', Indices = [''logs-1'', ''logs-2''], State = ''SUCCESS'',
     StartTimeInMillis = 200000, EndTimeInMillis = 260500, Failures = [],
     Shards = \<lparr>Total = 2, Failed = 0, Successful = 2\<rparr>\<rparr>"

definition snapshotC :: SnapshotStatDataResponse where
  "snapshotC = \<lparr>Version = ''7.10.2'', Indices = [''logs-1'', ''logs-2'', ''logs-3''],
     State = ''FAILED'', StartTimeInMillis = 300000, EndTimeInMillis = 300999,
     Failures = [''shard 1 failed'', ''shard 2 failed''],
     Shards = \<lparr>Total = 3, Failed = 2, Successful = 1\<rparr>\<rparr>"

definition exampleStats :: SnapshotStatsResponse where
  "exampleStats = \<lparr>Snapshots = [snapshotA, snapshotB, snapshotC]\<rparr>"

definition exampleClient :: "string \<Rightarrow> get_result" where
  "exampleClient target =
     (if target = ''http://es:9200/_snapshot''
      then GetOk \<lparr>StatusCode = 200, Body_ReadAll = Inr ''catalog'', Body_Close = None\<rparr>
      else if target = ''http://es:9200/_snapshot/R1/_all''
      then GetOk \<lparr>StatusCode = 500, Body_ReadAll = Inr ''error'', Body_Close = None\<rparr>
      else if target = ''http://es:9200/_snapshot/R2/_all''
      then GetOk \<lparr>StatusCode = 200, Body_ReadAll = Inr ''stats'', Body_Close = None\<rparr>
      else GetErr ''no such host'')"

definition exampleEnv :: env where
  "exampleEnv = \<lparr>
     url_String = example_url_String,
     path_Join = example_path_Join,
     unmarshal_repositories =
       (\<lambda>bts. if bts = ''catalog'' then Inr [(''R1'', ''fs''), (''R2'', ''fs'')]
              else Inl ''invalid character''),
     unmarshal_stats =
       (\<lambda>bts. if bts = ''stats'' then Inr exampleStats else Inl ''invalid character''),
     range_order = (\<lambda>i. rev)\<rparr>"

definition exampleSnapshots :: Snapshots where
  "exampleSnapshots = NewSnapshots ''elasticsearch'' exampleClient exampleURL"

text \<open>A cluster that answers every request with status 503 and a body that fails to close.\<close>

definition brokenClient :: "string \<Rightarrow> get_result" where
  "brokenClient target =
     GetOk \<lparr>StatusCode = 503, Body_ReadAll = Inl ''unexpected EOF'',
            Body_Close = Some ''already closed''\<rparr>"

definition brokenSnapshots :: Snapshots where
  "brokenSnapshots = NewSnapshots ''elasticsearch'' brokenClient exampleURL"

definition emptyWorld :: world where
  "emptyWorld = \<lparr>requests = [], closes = [], logs = []\<rparr>"

subsection \<open>The vocabulary of the properties\<close>

text \<open>
  The line \<^verbatim>\<open>getAndParseURL\<close> logs for the request of \<open>u\<close>: one line when the request is
  answered with a response whose body fails to close, none otherwise.
\<close>

definition closeLine :: "Snapshots \<Rightarrow> env \<Rightarrow> url \<Rightarrow> log_line list" where
  "closeLine s e u =
     (case client s (url_String e u) of
        GetErr err \<Rightarrow> []
      | GetOk res \<Rightarrow>
          (case Body_Close res of
             None \<Rightarrow> []
           | Some err \<Rightarrow> [(''failed to close http.Client, err: '', LibraryError err)]))"

text \<open>
  What Go promises of \<^verbatim>\<open>range\<close> over a map that the loop does not change: every key
  is visited once. Which order is chosen is left open.
\<close>

definition fair_range :: "env \<Rightarrow> bool" where
  "fair_range e =
     (\<forall>i ks. distinct ks \<longrightarrow> distinct (range_order e i ks) \<and> set (range_order e i ks) = set ks)"

text \<open>
  The repository a sample is about: the value of its first label, which is
  \<^verbatim>\<open>repository\<close> for all ten descriptors.
\<close>

definition repositoryOf :: "Metric \<Rightarrow> string" where
  "repositoryOf m = hd (labelValues m)"

text \<open>
  One sample for each repository-level metric of \<open>s\<close>, computed from the statistics
  \<open>stats\<close> of the repository \<open>name\<close>, in the order of the metrics.
\<close>

definition repositorySamples :: "Snapshots \<Rightarrow> string \<Rightarrow> SnapshotStatsResponse \<Rightarrow> Metric list" where
  "repositorySamples s name stats =
     map (\<lambda>metric. MustNewConstMetric (repositoryMetric.Desc metric) (repositoryMetric.Type metric)
            (repositoryMetric.Value metric stats) [name])
       (repositoryMetrics s)"

text \<open>
  One sample for each snapshot-level metric of \<open>s\<close>, computed from the snapshot
  \<open>snap\<close> of the repository \<open>name\<close>, in the order of the metrics.
\<close>

definition snapshotSamples :: "Snapshots \<Rightarrow> string \<Rightarrow> SnapshotStatDataResponse \<Rightarrow> Metric list" where
  "snapshotSamples s name snap =
     map (\<lambda>metric. MustNewConstMetric (snapshotMetric.Desc metric) (snapshotMetric.Type metric)
            (snapshotMetric.Value metric snap) [name, State snap, Version snap])
       (snapshotMetrics s)"

text \<open>
  The samples of one repository: the repository-level ones, followed by the snapshot-level
  ones of its last snapshot when it has a snapshot.
\<close>

definition expectedSamples :: "Snapshots \<Rightarrow> string \<Rightarrow> SnapshotStatsResponse \<Rightarrow> Metric list" where
  "expectedSamples s name stats =
     repositorySamples s name stats
     @ (if Snapshots stats = [] then [] else snapshotSamples s name (last (Snapshots stats)))"


subsection \<open>The library's path.Join\<close>






subsection \<open>Plain path elements\<close>







section \<open>Properties\<close>

subsection \<open>The repository metrics\<close>

lemma latestLoop_take:
  "i < int (length snaps) \<Longrightarrow> latestLoop snaps i = latestSpec (take (nat (i + 1)) snaps)"
proof (induction snaps i rule: latestLoop.induct)
  case (1 snaps i)
  show ?case
  proof (cases "i \<ge> 0")
    case False
    then show ?thesis by (subst latestLoop.simps) (simp add: latestSpec_def)
  next
    case True
    then have n: "nat (i + 1) = Suc (nat i)" by simp
    from True "1.prems" have lt: "nat i < length snaps" by simp
    have tk: "take (Suc (nat i)) snaps = take (nat i) snaps @ [snaps ! nat i]"
      using lt by (simp add: take_Suc_conv_app_nth)
    show ?thesis
    proof (cases "qualifies (snaps ! nat i)")
      case q: True
      then show ?thesis using True
        by (subst latestLoop.simps) (simp add: n tk latestSpec_def qualifies_def startSeconds_def)
    next
      case q: False
      have "latestLoop snaps (i - 1) = latestSpec (take (nat (i - 1 + 1)) snaps)"
        using "1.IH" True q "1.prems" by (simp add: qualifies_def)
      then show ?thesis using True q
        by (subst latestLoop.simps) (simp add: n tk latestSpec_def qualifies_def)
    qed
  qed
qed

lemma latestLoop_all: "latestLoop snaps (int (length snaps) - 1) = latestSpec snaps"
  using latestLoop_take [of "int (length snaps) - 1" snaps] by simp

text \<open>
  C3: the value of the latest-successful-or-partial-snapshot descriptor is what the scan
  of the specification gives: the start time in seconds of the first record, from the end
  of the sequence backward, whose state is SUCCESS or PARTIAL, and 0 when no record
  qualifies, as in the empty sequence and in a sequence of failed snapshots.
\<close>

theorem latest_snapshot_value_is_backward_scan:
  "repositoryMetric.Value (repositoryMetrics (NewSnapshots ns c u) ! 2) ssr
     = latestSpec (Snapshots ssr)
   \<and> ((\<forall>snap \<in> set (Snapshots ssr). \<not> qualifies snap) \<longrightarrow>
        repositoryMetric.Value (repositoryMetrics (NewSnapshots ns c u) ! 2) ssr = Float64 0)"
proof -
  have eq: "repositoryMetric.Value (repositoryMetrics (NewSnapshots ns c u) ! 2) ssr
     = latestSpec (Snapshots ssr)"
    by (simp add: NewSnapshots_def latestLoop_all)
  have "find qualifies (rev (Snapshots ssr)) = None"
    if "\<forall>snap \<in> set (Snapshots ssr). \<not> qualifies snap"
    using that by (simp add: find_None_iff)
  then show ?thesis using eq by (simp add: latestSpec_def)
qed

theorem latest_snapshot_value_all_failed_witness:
  "\<not> qualifies snapshotA \<and> \<not> qualifies snapshotC
   \<and> repositoryMetric.Value (repositoryMetrics exampleSnapshots ! 2)
        \<lparr>Snapshots = [snapshotA, snapshotC]\<rparr> = Float64 0"
proof -
  have q: "\<not> qualifies snapshotA" "\<not> qualifies snapshotC"
    by (simp_all add: qualifies_def snapshotA_def snapshotC_def)
  then have h: "\<forall>snap \<in> set (Snapshots \<lparr>Snapshots = [snapshotA, snapshotC]\<rparr>). \<not> qualifies snap"
    by simp
  with latest_snapshot_value_is_backward_scan
         [of "''elasticsearch''" exampleClient exampleURL "\<lparr>Snapshots = [snapshotA, snapshotC]\<rparr>"]
  show ?thesis using q unfolding exampleSnapshots_def by blast
qed

text \<open>
  C6: the value of the snapshot-count descriptor is the length of the sequence, and the
  value of the oldest-snapshot-timestamp descriptor is the start time in seconds of the
  first element of the sequence, or 0 when the sequence is empty.
\<close>

theorem count_and_oldest_values:
  "repositoryMetric.Value (repositoryMetrics (NewSnapshots ns c u) ! 0) ssr
     = Float64 (int (length (Snapshots ssr)))
   \<and> repositoryMetric.Value (repositoryMetrics (NewSnapshots ns c u) ! 1) ssr
     = (case Snapshots ssr of
          [] \<Rightarrow> Float64 0
        | first # rest \<Rightarrow> Float64 (startSeconds first))"
  by (simp add: NewSnapshots_def startSeconds_def split: list.split)

subsection \<open>The snapshot metrics\<close>

text \<open>
  C7: the values of the start-timestamp and end-timestamp descriptors are the timestamps
  in milliseconds divided by 1000 as integers, the quotient truncated towards zero, and
  converted to a float afterwards: a start time of 100 ms gives 0, and an end time of
  -1999 ms gives -1.
\<close>

theorem timestamp_values_truncate:
  "snapshotMetric.Value (snapshotMetrics (NewSnapshots ns c u) ! 1) snap
     = Float64 (sgn (sint (StartTimeInMillis snap)) * (\<bar>sint (StartTimeInMillis snap)\<bar> div 1000))
   \<and> snapshotMetric.Value (snapshotMetrics (NewSnapshots ns c u) ! 2) snap
     = Float64 (sgn (sint (EndTimeInMillis snap)) * (\<bar>sint (EndTimeInMillis snap)\<bar> div 1000))
   \<and> snapshotMetric.Value (snapshotMetrics (NewSnapshots ns c u) ! 1)
        (snap\<lparr>StartTimeInMillis := 100\<rparr>) = Float64 0
   \<and> snapshotMetric.Value (snapshotMetrics (NewSnapshots ns c u) ! 2)
        (snap\<lparr>EndTimeInMillis := - 1999\<rparr>) = Float64 (- 1)"
  by (simp add: NewSnapshots_def signed_divide_int_def)

subsection \<open>Describe\<close>

lemma Describe_funpow:
  "((\<lambda>(w, ch). Describe s w ch) ^^ n) (w, ch) =
     (w, ch @ concat (replicate n (map snapshotMetric.Desc (snapshotMetrics s)
                                  @ map repositoryMetric.Desc (repositoryMetrics s))))"
proof (induction n)
  case 0
  show ?case by simp
next
  case (Suc n)
  have rep: "concat (replicate n xs) @ xs = xs @ concat (replicate n xs)" for xs :: "Desc list"
    by (induction n) simp_all
  show ?case
    by (simp only: funpow.simps o_apply Suc.IH) (simp add: Describe_def rep)
qed

text \<open>
  C8: however often Describe is called, every call sends the same descriptors (\<open>n\<close> calls
  in a row send \<open>n\<close> copies of what one call sends, whatever the state of the world
  \<open>w'\<close> that one call is made in), and a call makes no request: the world is
  returned as it was.
\<close>

theorem Describe_repeatable_without_requests:
  "((\<lambda>(w, ch). Describe s w ch) ^^ n) (w, ch) =
     (w, ch @ concat (replicate n (snd (Describe s w' []))))
   \<and> fst (Describe s w ch) = w
   \<and> requests (fst (Describe s w ch)) = requests w"
  by (simp add: Describe_funpow) (simp add: Describe_def)

text \<open>
  C10: a call of Describe sends exactly 10 descriptors: the 7 snapshot-level ones (index
  count, start timestamp, end timestamp, failure count, total, failed and successful
  shards) in the order of their construction, then the 3 repository-level ones (snapshot
  count, oldest timestamp, latest success-or-partial timestamp) in the order of theirs.
  The values the snapshot-level metrics compute, in the same order, say which is which.
\<close>

theorem Describe_sends_ten_in_order:
  "snd (Describe (NewSnapshots ns c u) w []) =
     map (\<lambda>(name, hlp). NewDesc (BuildFQName ns ''snapshot_stats'' name) hlp
            [''repository'', ''state'', ''version''])
       [(''snapshot_number_of_indices'', ''Number of indices in the last snapshot''),
        (''snapshot_start_time_timestamp'', ''Last snapshot start timestamp''),
        (''snapshot_end_time_timestamp'', ''Last snapshot end timestamp''),
        (''snapshot_number_of_failures'', ''Last snapshot number of failures''),
        (''snapshot_total_shards'', ''Last snapshot total shards''),
        (''snapshot_failed_shards'', ''Last snapshot failed shards''),
        (''snapshot_successful_shards'', ''Last snapshot successful shards'')]
     @ map (\<lambda>(name, hlp). NewDesc (BuildFQName ns ''snapshot_stats'' name) hlp [''repository''])
       [(''number_of_snapshots'', ''Number of snapshots in a repository''),
        (''oldest_snapshot_timestamp'', ''Timestamp of the oldest snapshot''),
        (''latest_snapshot_timestamp_seconds'',
         ''Timestamp of the latest SUCCESS or PARTIAL snapshot'')]
   \<and> length (snd (Describe (NewSnapshots ns c u) w [])) = 10
   \<and> map (\<lambda>metric. snapshotMetric.Value metric snap) (snapshotMetrics (NewSnapshots ns c u)) =
       [Float64 (int (length (Indices snap))),
        Float64 (sint (StartTimeInMillis snap) sdiv 1000),
        Float64 (sint (EndTimeInMillis snap) sdiv 1000),
        Float64 (int (length (Failures snap))),
        Float64 (sint (Total (Shards snap))),
        Float64 (sint (Failed (Shards snap))),
        Float64 (sint (Successful (Shards snap)))]"
  by (simp add: Describe_def NewSnapshots_def defaultSnapshotLabels_def
      defaultSnapshotRepositoryLabels_def)

subsection \<open>One fetch\<close>

text \<open>
  C9: when the request of getAndParseURL is answered with a response, the body of that
  response is closed once before the call returns, whichever way it returns: with the
  decoded value, with the error of a status other than 200, with the error of reading
  the body, or with the error of decoding it.
\<close>

theorem getAndParseURL_closes_body:
  assumes "client s (url_String e u) = GetOk res"
  shows "closes (fst (getAndParseURL s e u decode w)) = closes w @ [url_String e u]
     \<and> snd (getAndParseURL s e u decode w) =
        (if StatusCode res \<noteq> 200 then Inl (HTTPRequestFailed (StatusCode res))
         else case Body_ReadAll res of
                Inl err \<Rightarrow> Inl (LibraryError err)
              | Inr bts \<Rightarrow> (case decode bts of Inl err \<Rightarrow> Inl (LibraryError err) | Inr d \<Rightarrow> Inr d))"
  using assms
  by (simp add: getAndParseURL_def deferredClose_def parseResponse_def Let_def split: option.split)

theorem getAndParseURL_closes_body_witness:
  "client brokenSnapshots (url_String exampleEnv (catalogURL brokenSnapshots exampleEnv)) =
     GetOk \<lparr>StatusCode = 503, Body_ReadAll = Inl ''unexpected EOF'',
            Body_Close = Some ''already closed''\<rparr>
   \<and> closes (fst (getAndParseURL brokenSnapshots exampleEnv
                  (catalogURL brokenSnapshots exampleEnv) (unmarshal_repositories exampleEnv)
                  emptyWorld)) = [''http://es:9200/_snapshot'']
   \<and> snd (getAndParseURL brokenSnapshots exampleEnv
             (catalogURL brokenSnapshots exampleEnv) (unmarshal_repositories exampleEnv)
             emptyWorld) = Inl (HTTPRequestFailed 503)"
proof -
  have h: "client brokenSnapshots (url_String exampleEnv (catalogURL brokenSnapshots exampleEnv)) =
     GetOk \<lparr>StatusCode = 503, Body_ReadAll = Inl ''unexpected EOF'',
            Body_Close = Some ''already closed''\<rparr>"
    by (simp add: brokenSnapshots_def NewSnapshots_def brokenClient_def)
  have t: "url_String exampleEnv (catalogURL brokenSnapshots exampleEnv) = ''http://es:9200/_snapshot''"
    by (simp add: exampleEnv_def catalogURL_def brokenSnapshots_def NewSnapshots_def
        exampleURL_def example_url_String_def example_path_Join_def)
  show ?thesis
    using getAndParseURL_closes_body [OF h, of "unmarshal_repositories exampleEnv" emptyWorld] h
    by (simp add: t emptyWorld_def)
qed

subsection \<open>What a fetch leaves behind\<close>

lemma getAndParseURL_requests:
  "requests (fst (getAndParseURL s e u decode w)) = requests w @ [url_String e u]"
  by (simp add: getAndParseURL_def deferredClose_def Let_def split: get_result.split option.split)

lemma getAndParseURL_logs:
  "logs (fst (getAndParseURL s e u decode w)) = logs w @ closeLine s e u"
  by (simp add: getAndParseURL_def deferredClose_def closeLine_def Let_def
      split: get_result.split option.split)

lemma getAndParseURL_result:
  "snd (getAndParseURL s e u decode w) =
     (case client s (url_String e u) of
        GetErr err \<Rightarrow> Inl (FailedToGet (Scheme u) (Hostname u) (Port u) (Path u) err)
      | GetOk res \<Rightarrow> parseResponse res decode)"
  by (simp add: getAndParseURL_def Let_def split: get_result.split)

lemma getAndParseURL_result_any_world:
  "snd (getAndParseURL s e u decode w) = snd (getAndParseURL s e u decode w')"
  by (simp add: getAndParseURL_result)

subsection \<open>The loop over the repositories\<close>


lemma fetchLoop_logs:
  "logs (fst (fetchLoop s e ks w mssr)) =
     logs w @ concat (map (\<lambda>k. closeLine s e (detailURL s e k)) ks)"
proof (induction ks arbitrary: w mssr)
  case Nil
  show ?case by simp
next
  case (Cons k ks)
  obtain w1 r where g: "getAndParseURL s e (detailURL s e k) (unmarshal_stats e) w = (w1, r)"
    by (cases "getAndParseURL s e (detailURL s e k) (unmarshal_stats e) w")
  have "logs w1 = logs w @ closeLine s e (detailURL s e k)"
    using getAndParseURL_logs [of s e "detailURL s e k" "unmarshal_stats e" w] g by simp
  then show ?case using g Cons.IH by (cases r) simp_all
qed

lemma fetchLoop_map_of:
  "map_of (snd (fetchLoop s e ks w mssr)) k =
     (if k \<in> set ks
      then (case snd (getAndParseURL s e (detailURL s e k) (unmarshal_stats e) w') of
              Inl err \<Rightarrow> map_of mssr k
            | Inr ssr \<Rightarrow> Some ssr)
      else map_of mssr k)"
proof (induction ks arbitrary: w mssr)
  case Nil
  show ?case by simp
next
  case (Cons k' ks)
  obtain w1 r where g: "getAndParseURL s e (detailURL s e k') (unmarshal_stats e) w = (w1, r)"
    by (cases "getAndParseURL s e (detailURL s e k') (unmarshal_stats e) w")
  have r: "snd (getAndParseURL s e (detailURL s e k') (unmarshal_stats e) w') = r"
    using getAndParseURL_result_any_world [of s e "detailURL s e k'" "unmarshal_stats e" w' w] g
    by simp
  show ?case
  proof (cases r)
    case (Inl err)
    then show ?thesis using g r Cons.IH [of w1 mssr] by auto
  next
    case (Inr ssr)
    then show ?thesis
      using g r Cons.IH [of w1 "AList.update k' ssr mssr"]
      by (auto simp: update_conv' split: sum.splits)
  qed
qed

lemma fetchLoop_distinct:
  "distinct (map fst mssr) \<Longrightarrow> distinct (map fst (snd (fetchLoop s e ks w mssr)))"
proof (induction ks arbitrary: w mssr)
  case Nil
  then show ?case by simp
next
  case (Cons k ks)
  obtain w1 r where g: "getAndParseURL s e (detailURL s e k) (unmarshal_stats e) w = (w1, r)"
    by (cases "getAndParseURL s e (detailURL s e k) (unmarshal_stats e) w")
  show ?case
  proof (cases r)
    case (Inl err)
    then show ?thesis using g Cons by simp
  next
    case (Inr ssr)
    then show ?thesis using g Cons.IH [of "AList.update k ssr mssr" w1] Cons.prems
      by (simp add: distinct_update)
  qed
qed

subsection \<open>Ranging over a map\<close>

lemma go_range_keys:
  assumes "fair_range e" "distinct (map fst m)"
  shows "map fst (go_range e i m) = range_order e i (map fst m)"
proof -
  have sub: "set (range_order e i (map fst m)) = set (map fst m)"
    using assms by (simp add: fair_range_def)
  have "map fst (List.map_filter (\<lambda>k. map_option (Pair k) (map_of m k)) ks) = ks"
    if "set ks \<subseteq> set (map fst m)" for ks
    using that
  proof (induction ks)
    case Nil
    show ?case by simp
  next
    case (Cons k ks)
    then obtain v where "map_of m k = Some v"
      by (cases "map_of m k") (auto simp: map_of_eq_None_iff)
    then show ?case using Cons by simp
  qed
  then show ?thesis using sub by (simp add: go_range_def)
qed

lemma go_range_entries:
  "set (go_range e i m) \<subseteq> set m"
proof -
  have "set (List.map_filter (\<lambda>k. map_option (Pair k) (map_of m k)) ks) \<subseteq> set m" for ks
  proof (induction ks)
    case Nil
    show ?case by simp
  next
    case (Cons k ks)
    then show ?case by (cases "map_of m k") (auto dest: map_of_SomeD)
  qed
  then show ?thesis by (simp add: go_range_def)
qed

lemma go_range_complete:
  assumes "fair_range e" "distinct (map fst m)" "(k, v) \<in> set m"
  shows "(k, v) \<in> set (go_range e i m)"
proof -
  have "k \<in> set (map fst (go_range e i m))"
    using assms go_range_keys [OF assms(1,2)] by (force simp: fair_range_def)
  then obtain v' where in': "(k, v') \<in> set (go_range e i m)" by auto
  then have "(k, v') \<in> set m" using go_range_entries by blast
  then have "v' = v" using assms(2,3) by (meson eq_key_imp_eq_value)
  then show ?thesis using in' by simp
qed

lemma go_range_distinct:
  assumes "fair_range e" "distinct (map fst m)"
  shows "distinct (map fst (go_range e i m))"
  using assms go_range_keys [OF assms] by (simp add: fair_range_def)

subsection \<open>The samples of a repository\<close>

lemma collectRepository_append:
  "collectRepository s name stats ch = ch @ collectRepository s name stats []"
  by (simp add: collectRepository_def Let_def)

lemma collectLoop_concat:
  "collectLoop s xs ch = ch @ concat (map (\<lambda>(name, stats). collectRepository s name stats []) xs)"
proof (induction xs arbitrary: ch)
  case Nil
  show ?case by simp
next
  case (Cons x xs)
  obtain name stats where x: "x = (name, stats)" by (cases x)
  show ?case
    using Cons.IH [of "collectRepository s name stats ch"]
      collectRepository_append [of s name stats ch]
    by (simp add: x)
qed

lemma collectRepository_NewSnapshots:
  "collectRepository (NewSnapshots ns c u) name stats [] =
     expectedSamples (NewSnapshots ns c u) name stats"
proof -
  have l: "xs \<noteq> [] \<Longrightarrow> xs ! (length xs - Suc 0) = last xs" for xs :: "SnapshotStatDataResponse list"
    by (simp add: last_conv_nth)
  show ?thesis
    by (simp add: collectRepository_def expectedSamples_def repositorySamples_def
        snapshotSamples_def NewSnapshots_def Let_def l
        defaultSnapshotLabelValues_def defaultSnapshotRepositoryLabelValues_def)
qed

lemma expectedSamples_repository:
  "m \<in> set (expectedSamples (NewSnapshots ns c u) name stats) \<Longrightarrow> repositoryOf m = name"
  by (auto simp: expectedSamples_def repositorySamples_def snapshotSamples_def repositoryOf_def
      MustNewConstMetric_def split: if_splits)

lemma expectedSamples_length:
  "length (expectedSamples (NewSnapshots ns c u) name stats) =
     (if Snapshots stats = [] then 3 else 10)"
  by (simp add: expectedSamples_def repositorySamples_def snapshotSamples_def NewSnapshots_def)

lemma sample_label_counts:
  "m \<in> set (expectedSamples (NewSnapshots ns c u) name stats) \<Longrightarrow>
     length (labelValues m) = length (variableLabels (metricDesc m))"
  by (auto simp: expectedSamples_def repositorySamples_def snapshotSamples_def NewSnapshots_def
      MustNewConstMetric_def NewDesc_def defaultSnapshotLabels_def
      defaultSnapshotRepositoryLabels_def split: if_splits)

lemma filter_blocks:
  assumes "distinct (map fst xs)"
    and "\<And>n st m. m \<in> set (block n st) \<Longrightarrow> repositoryOf m = n"
  shows "filter (\<lambda>m. repositoryOf m = name) (concat (map (\<lambda>(n, st). block n st) xs)) =
     (case map_of xs name of None \<Rightarrow> [] | Some st \<Rightarrow> block name st)"
  using assms(1)
proof (induction xs)
  case Nil
  show ?case by simp
next
  case (Cons x xs)
  obtain n st where x: "x = (n, st)" by (cases x)
  have all: "filter (\<lambda>m. repositoryOf m = n) (block n st) = block n st"
    using assms(2) by (simp add: filter_id_conv)
  have none: "n \<noteq> name \<Longrightarrow> filter (\<lambda>m. repositoryOf m = name) (block n st) = []"
    using assms(2) by (auto simp: filter_empty_conv)
  show ?case
  proof (cases "n = name")
    case True
    then have "map_of xs name = None"
      using Cons.prems x by (simp add: map_of_eq_None_iff)
    then show ?thesis using Cons x True all by simp
  next
    case False
    then show ?thesis using Cons x none by simp
  qed
qed

subsection \<open>The two outcomes of the catalog fetch\<close>

lemma fetchAndDecode_ok:
  assumes "snd (getAndParseURL s e (catalogURL s e) (unmarshal_repositories e) w) = Inr srr"
  shows "fetchAndDecodeSnapshotsStats s e w =
     (fst (fetchLoop s e (map fst (go_range e 0 srr))
             (fst (getAndParseURL s e (catalogURL s e) (unmarshal_repositories e) w)) []),
      Inr (snd (fetchLoop s e (map fst (go_range e 0 srr))
             (fst (getAndParseURL s e (catalogURL s e) (unmarshal_repositories e) w)) [])))"
  using assms
  by (cases "getAndParseURL s e (catalogURL s e) (unmarshal_repositories e) w")
     (simp add: fetchAndDecodeSnapshotsStats_def split: prod.split)

lemma fetchAndDecode_failed:
  assumes "snd (getAndParseURL s e (catalogURL s e) (unmarshal_repositories e) w) = Inl err"
  shows "fetchAndDecodeSnapshotsStats s e w =
     (fst (getAndParseURL s e (catalogURL s e) (unmarshal_repositories e) w), Inl err)"
  using assms
  by (cases "getAndParseURL s e (catalogURL s e) (unmarshal_repositories e) w")
     (simp add: fetchAndDecodeSnapshotsStats_def)

lemma Collect_ok:
  assumes "snd (getAndParseURL s e (catalogURL s e) (unmarshal_repositories e) w) = Inr srr"
  shows "Collect_Snapshots s e w ch =
     (fst (fetchAndDecodeSnapshotsStats s e w),
      ch @ concat (map (\<lambda>(name, stats). collectRepository s name stats [])
             (go_range e 1 (snd (fetchLoop s e (map fst (go_range e 0 srr))
                (fst (getAndParseURL s e (catalogURL s e) (unmarshal_repositories e) w)) [])))))"
  by (simp add: Collect_Snapshots_def fetchAndDecode_ok [OF assms] collectLoop_concat)

lemma Collect_failed:
  assumes "snd (getAndParseURL s e (catalogURL s e) (unmarshal_repositories e) w) = Inl err"
  shows "Collect_Snapshots s e w ch =
     ((fst (getAndParseURL s e (catalogURL s e) (unmarshal_repositories e) w))
        \<lparr>logs := logs (fst (getAndParseURL s e (catalogURL s e) (unmarshal_repositories e) w))
                  @ [(''failed to fetch and decode snapshot stats, err: '', err)]\<rparr>,
      ch)"
  by (simp add: Collect_Snapshots_def fetchAndDecode_failed [OF assms])

lemma fetched_map_of:
  assumes "fair_range e" "distinct (map fst srr)"
  shows "map_of (snd (fetchLoop s e (map fst (go_range e 0 srr)) w1 [])) name =
     (if name \<in> fst ` set srr
      then (case snd (getAndParseURL s e (detailURL s e name) (unmarshal_stats e) w') of
              Inl err \<Rightarrow> None
            | Inr stats \<Rightarrow> Some stats)
      else None)"
proof -
  have "set (map fst (go_range e 0 srr)) = fst ` set srr"
    using assms go_range_keys [OF assms] by (simp add: fair_range_def)
  then show ?thesis
    using fetchLoop_map_of [of s e "map fst (go_range e 0 srr)" w1 "[]" name w']
    by (simp split: sum.split)
qed

lemma samples_of_repository:
  assumes "snd (getAndParseURL (NewSnapshots ns c u) e (catalogURL (NewSnapshots ns c u) e)
                  (unmarshal_repositories e) w) = Inr srr"
    and "fair_range e" and "distinct (map fst srr)"
  shows "filter (\<lambda>m. repositoryOf m = name) (snd (Collect_Snapshots (NewSnapshots ns c u) e w [])) =
     (if name \<in> fst ` set srr
      then (case snd (getAndParseURL (NewSnapshots ns c u) e
                        (detailURL (NewSnapshots ns c u) e name) (unmarshal_stats e) w') of
              Inl err \<Rightarrow> []
            | Inr stats \<Rightarrow> expectedSamples (NewSnapshots ns c u) name stats)
      else [])"
proof -
  define s where "s = NewSnapshots ns c u"
  define w1 where "w1 = fst (getAndParseURL s e (catalogURL s e) (unmarshal_repositories e) w)"
  define mssr where "mssr = snd (fetchLoop s e (map fst (go_range e 0 srr)) w1 [])"
  have d: "distinct (map fst mssr)"
    unfolding mssr_def by (rule fetchLoop_distinct) simp
  have dr: "distinct (map fst (go_range e 1 mssr))"
    using go_range_distinct [OF assms(2) d] .
  have mo: "map_of (go_range e 1 mssr) name = map_of mssr name"
  proof (cases "map_of mssr name")
    case None
    then have "name \<notin> fst ` set mssr" by (simp add: map_of_eq_None_iff)
    then have "name \<notin> fst ` set (go_range e 1 mssr)"
      using go_range_entries [of e 1 mssr] by auto
    then have "map_of (go_range e 1 mssr) name = None"
      by (simp add: map_of_eq_None_iff)
    then show ?thesis unfolding None .
  next
    case (Some st)
    then have "(name, st) \<in> set mssr" by (rule map_of_SomeD)
    then have "(name, st) \<in> set (go_range e 1 mssr)"
      using go_range_complete [OF assms(2) d] by simp
    then show ?thesis using Some dr by simp
  qed
  have out: "snd (Collect_Snapshots s e w []) =
      concat (map (\<lambda>(name, stats). expectedSamples s name stats) (go_range e 1 mssr))"
    using Collect_ok [of s e w srr "[]"] assms(1)
    unfolding s_def mssr_def w1_def by (simp add: collectRepository_NewSnapshots)
  have "filter (\<lambda>m. repositoryOf m = name) (snd (Collect_Snapshots s e w [])) =
      (case map_of (go_range e 1 mssr) name of None \<Rightarrow> [] | Some st \<Rightarrow> expectedSamples s name st)"
    unfolding out
    by (rule filter_blocks [OF dr]) (simp add: s_def expectedSamples_repository)
  also have "\<dots> = (case map_of mssr name of None \<Rightarrow> [] | Some st \<Rightarrow> expectedSamples s name st)"
    by (simp only: mo)
  also have "\<dots> = (if name \<in> fst ` set srr
      then (case snd (getAndParseURL s e (detailURL s e name) (unmarshal_stats e) w') of
              Inl err \<Rightarrow> []
            | Inr stats \<Rightarrow> expectedSamples s name stats)
      else [])"
    unfolding mssr_def
    by (simp add: fetched_map_of [OF assms(2,3), of s w1 name w'] split: sum.split)
  finally show ?thesis unfolding s_def .
qed


lemma Collect_logs:
  assumes "snd (getAndParseURL s e (catalogURL s e) (unmarshal_repositories e) w) = Inr srr"
    and "fair_range e" and "distinct (map fst srr)"
  shows "logs (fst (Collect_Snapshots s e w ch)) =
     logs w @ concat (map (closeLine s e)
       (catalogURL s e # map (detailURL s e) (range_order e 0 (map fst srr))))"
  by (simp add: Collect_ok [OF assms(1)] fetchAndDecode_ok [OF assms(1)] fetchLoop_logs
      getAndParseURL_logs go_range_keys [OF assms(2,3)] comp_def)

subsection \<open>The example cluster\<close>

lemma example_catalog:
  "snd (getAndParseURL exampleSnapshots exampleEnv (catalogURL exampleSnapshots exampleEnv)
          (unmarshal_repositories exampleEnv) emptyWorld) = Inr [(''R1'', ''fs''), (''R2'', ''fs'')]"
  by (simp add: getAndParseURL_def parseResponse_def catalogURL_def exampleSnapshots_def
      NewSnapshots_def exampleEnv_def exampleClient_def exampleURL_def example_url_String_def
      example_path_Join_def Let_def)

lemma example_R1:
  "snd (getAndParseURL exampleSnapshots exampleEnv (detailURL exampleSnapshots exampleEnv ''R1'')
          (unmarshal_stats exampleEnv) emptyWorld) = Inl (HTTPRequestFailed 500)"
  by (simp add: getAndParseURL_def parseResponse_def detailURL_def exampleSnapshots_def
      NewSnapshots_def exampleEnv_def exampleClient_def exampleURL_def example_url_String_def
      example_path_Join_def Let_def)

lemma example_R2:
  "snd (getAndParseURL exampleSnapshots exampleEnv (detailURL exampleSnapshots exampleEnv ''R2'')
          (unmarshal_stats exampleEnv) emptyWorld) = Inr exampleStats"
  by (simp add: getAndParseURL_def parseResponse_def detailURL_def exampleSnapshots_def
      NewSnapshots_def exampleEnv_def exampleClient_def exampleURL_def example_url_String_def
      example_path_Join_def Let_def)

lemma example_fair: "fair_range exampleEnv"
  by (simp add: fair_range_def exampleEnv_def)

lemma example_logs: "logs (fst (Collect_Snapshots exampleSnapshots exampleEnv emptyWorld [])) = []"
  by (simp add: Collect_Snapshots_def fetchAndDecodeSnapshotsStats_def getAndParseURL_def parseResponse_def
      deferredClose_def go_range_def
      catalogURL_def detailURL_def exampleSnapshots_def
      NewSnapshots_def exampleEnv_def exampleClient_def exampleURL_def example_url_String_def
      example_path_Join_def emptyWorld_def Let_def)

lemma example_distinct: "distinct (map fst [(''R1'', ''fs''), (''R2'', ''fs'')])"
  by simp

subsection \<open>A cycle whose catalog fetch fails\<close>

text \<open>
  C2: when the fetch of the repository catalog fails, Collect sends no sample (the channel
  is left as it was, so an empty one stays empty), requests nothing but the catalog, and
  reports the failure with one line of the log, after the line of a body that failed to
  close if there is one. Collect returns as it does in every cycle: the failure is a value,
  not a panic.
\<close>

theorem Collect_aborts_on_catalog_failure:
  assumes "snd (getAndParseURL s e (catalogURL s e) (unmarshal_repositories e) w) = Inl err"
  shows "snd (Collect_Snapshots s e w ch) = ch
     \<and> requests (fst (Collect_Snapshots s e w ch)) = requests w @ [url_String e (catalogURL s e)]
     \<and> logs (fst (Collect_Snapshots s e w ch)) =
         logs w @ closeLine s e (catalogURL s e)
           @ [(''failed to fetch and decode snapshot stats, err: '', err)]"
  by (simp add: Collect_failed [OF assms] getAndParseURL_requests getAndParseURL_logs)

theorem Collect_aborts_on_catalog_failure_witness:
  "snd (getAndParseURL brokenSnapshots exampleEnv (catalogURL brokenSnapshots exampleEnv)
          (unmarshal_repositories exampleEnv) emptyWorld) = Inl (HTTPRequestFailed 503)
   \<and> snd (Collect_Snapshots brokenSnapshots exampleEnv emptyWorld []) = []
   \<and> requests (fst (Collect_Snapshots brokenSnapshots exampleEnv emptyWorld [])) =
       [''http://es:9200/_snapshot'']
   \<and> logs (fst (Collect_Snapshots brokenSnapshots exampleEnv emptyWorld [])) =
       [(''failed to close http.Client, err: '', LibraryError ''already closed''),
        (''failed to fetch and decode snapshot stats, err: '', HTTPRequestFailed 503)]"
proof -
  have h: "snd (getAndParseURL brokenSnapshots exampleEnv (catalogURL brokenSnapshots exampleEnv)
          (unmarshal_repositories exampleEnv) emptyWorld) = Inl (HTTPRequestFailed 503)"
    by (simp add: getAndParseURL_def parseResponse_def brokenSnapshots_def NewSnapshots_def
        brokenClient_def Let_def)
  have t: "url_String exampleEnv (catalogURL brokenSnapshots exampleEnv) = ''http://es:9200/_snapshot''"
    by (simp add: exampleEnv_def catalogURL_def brokenSnapshots_def NewSnapshots_def
        exampleURL_def example_url_String_def example_path_Join_def)
  have c: "closeLine brokenSnapshots exampleEnv (catalogURL brokenSnapshots exampleEnv) =
      [(''failed to close http.Client, err: '', LibraryError ''already closed'')]"
    by (simp add: closeLine_def brokenSnapshots_def NewSnapshots_def brokenClient_def)
  show ?thesis
    using Collect_aborts_on_catalog_failure [OF h, of "[]"] h
    by (simp add: t c emptyWorld_def)
qed

subsection \<open>Joining plain elements\<close>


















subsection \<open>The requests of a cycle\<close>









subsection \<open>The samples of a cycle\<close>

text \<open>
  C4: for a repository of the catalog whose detail fetch succeeded with \<open>stats\<close>, the
  samples Collect sends for it are one per repository-level metric (three), each computed
  from the whole of \<open>stats\<close>, followed, if and only if the sequence of snapshots is not
  empty, by one per snapshot-level metric (seven), each computed from the last snapshot of
  the sequence, whatever its state.
\<close>

theorem Collect_samples_of_fetched_repository:
  assumes "snd (getAndParseURL (NewSnapshots ns c u) e (catalogURL (NewSnapshots ns c u) e)
                  (unmarshal_repositories e) w) = Inr srr"
    and "fair_range e" and "distinct (map fst srr)"
    and "name \<in> fst ` set srr"
    and "snd (getAndParseURL (NewSnapshots ns c u) e (detailURL (NewSnapshots ns c u) e name)
                (unmarshal_stats e) w') = Inr stats"
  shows "filter (\<lambda>m. repositoryOf m = name) (snd (Collect_Snapshots (NewSnapshots ns c u) e w [])) =
       repositorySamples (NewSnapshots ns c u) name stats
       @ (if Snapshots stats = [] then []
          else snapshotSamples (NewSnapshots ns c u) name (last (Snapshots stats)))
     \<and> length (repositorySamples (NewSnapshots ns c u) name stats) = 3
     \<and> length (snapshotSamples (NewSnapshots ns c u) name (last (Snapshots stats))) = 7"
proof -
  have "filter (\<lambda>m. repositoryOf m = name) (snd (Collect_Snapshots (NewSnapshots ns c u) e w [])) =
      expectedSamples (NewSnapshots ns c u) name stats"
    using samples_of_repository [OF assms(1,2,3), of name w'] assms(4,5) by simp
  then show ?thesis
    by (simp add: expectedSamples_def repositorySamples_def snapshotSamples_def NewSnapshots_def)
qed

lemma example_values:
  "map metricValue (repositorySamples exampleSnapshots ''R2'' exampleStats) =
     [Float64 3, Float64 0, Float64 200]"
  "map metricValue (snapshotSamples exampleSnapshots ''R2'' snapshotC) =
     [Float64 3, Float64 300, Float64 300, Float64 2, Float64 3, Float64 2, Float64 1]"
  "map labelValues (snapshotSamples exampleSnapshots ''R2'' snapshotC) =
     replicate 7 [''R2'', ''FAILED'', ''7.10.2'']"
  "Snapshots exampleStats \<noteq> []" "last (Snapshots exampleStats) = snapshotC"
  by (simp_all add: repositorySamples_def snapshotSamples_def exampleSnapshots_def
      NewSnapshots_def MustNewConstMetric_def exampleStats_def snapshotA_def snapshotB_def
      snapshotC_def latestLoop.simps signed_divide_int_def numeral_eq_Suc)

theorem Collect_samples_of_fetched_repository_witness:
  "snd (getAndParseURL exampleSnapshots exampleEnv (catalogURL exampleSnapshots exampleEnv)
          (unmarshal_repositories exampleEnv) emptyWorld) = Inr [(''R1'', ''fs''), (''R2'', ''fs'')]
   \<and> fair_range exampleEnv
   \<and> distinct (map fst [(''R1'', ''fs''), (''R2'', ''fs'')])
   \<and> ''R2'' \<in> fst ` set [(''R1'', ''fs''), (''R2'', ''fs'')]
   \<and> snd (getAndParseURL exampleSnapshots exampleEnv (detailURL exampleSnapshots exampleEnv ''R2'')
          (unmarshal_stats exampleEnv) emptyWorld) = Inr exampleStats
   \<and> last (Snapshots exampleStats) = snapshotC
   \<and> State snapshotC = ''FAILED''
   \<and> map metricValue (filter (\<lambda>m. repositoryOf m = ''R2'')
         (snd (Collect_Snapshots exampleSnapshots exampleEnv emptyWorld []))) =
       [Float64 3, Float64 0, Float64 200,
        Float64 3, Float64 300, Float64 300, Float64 2, Float64 3, Float64 2, Float64 1]"
proof -
  have m: "''R2'' \<in> fst ` set [(''R1'', ''fs''), (''R2'', ''fs'')]" by simp
  have "filter (\<lambda>m. repositoryOf m = ''R2'') (snd (Collect_Snapshots exampleSnapshots exampleEnv emptyWorld [])) =
       repositorySamples exampleSnapshots ''R2'' exampleStats
       @ (if Snapshots exampleStats = [] then []
          else snapshotSamples exampleSnapshots ''R2'' (last (Snapshots exampleStats)))"
    using Collect_samples_of_fetched_repository
            [OF example_catalog [unfolded exampleSnapshots_def] example_fair example_distinct m
                example_R2 [unfolded exampleSnapshots_def]]
    unfolding exampleSnapshots_def by blast
  moreover have "State snapshotC = ''FAILED''"
    by (simp add: snapshotC_def)
  ultimately show ?thesis
    using example_catalog example_fair example_R2
    by (simp add: example_values)
qed

subsection \<open>A repository whose fetch fails\<close>

text \<open>
  C1 as stated fails: with the catalog R1, R2, the detail fetch of R1 answered with status
  500 and the one of R2 with its snapshots, the log is empty after Collect, so nothing
  that refers to R1 has been reported.
\<close>

theorem failed_repository_not_logged_counterexample:
  "snd (getAndParseURL exampleSnapshots exampleEnv (catalogURL exampleSnapshots exampleEnv)
          (unmarshal_repositories exampleEnv) emptyWorld) = Inr [(''R1'', ''fs''), (''R2'', ''fs'')]
   \<and> snd (getAndParseURL exampleSnapshots exampleEnv (detailURL exampleSnapshots exampleEnv ''R1'')
          (unmarshal_stats exampleEnv) emptyWorld) = Inl (HTTPRequestFailed 500)
   \<and> snd (getAndParseURL exampleSnapshots exampleEnv (detailURL exampleSnapshots exampleEnv ''R2'')
          (unmarshal_stats exampleEnv) emptyWorld) = Inr exampleStats
   \<and> logs emptyWorld = []
   \<and> logs (fst (Collect_Snapshots exampleSnapshots exampleEnv emptyWorld [])) = []"
  using example_catalog example_R1 example_R2 example_logs
  by (simp add: emptyWorld_def)

text \<open>
  C1, amended: in a cycle in which the detail fetch of R1 fails and the one of R2
  succeeds, Collect sends no sample for R1 and sends the samples of R2 (the cycle is not
  aborted); the failure of R1 is skipped without a diagnostic: the lines the cycle adds to
  the log are those of response bodies that failed to close, and no other.
\<close>

theorem failed_repository_skipped_silently:
  assumes "snd (getAndParseURL (NewSnapshots ns c u) e (catalogURL (NewSnapshots ns c u) e)
                  (unmarshal_repositories e) w) = Inr srr"
    and "fair_range e" and "distinct (map fst srr)"
    and "R1 \<in> fst ` set srr" and "R2 \<in> fst ` set srr"
    and "snd (getAndParseURL (NewSnapshots ns c u) e (detailURL (NewSnapshots ns c u) e R1)
                (unmarshal_stats e) w') = Inl err"
    and "snd (getAndParseURL (NewSnapshots ns c u) e (detailURL (NewSnapshots ns c u) e R2)
                (unmarshal_stats e) w') = Inr stats"
  shows "filter (\<lambda>m. repositoryOf m = R1) (snd (Collect_Snapshots (NewSnapshots ns c u) e w [])) = []
     \<and> filter (\<lambda>m. repositoryOf m = R2) (snd (Collect_Snapshots (NewSnapshots ns c u) e w [])) =
         repositorySamples (NewSnapshots ns c u) R2 stats
         @ (if Snapshots stats = [] then []
            else snapshotSamples (NewSnapshots ns c u) R2 (last (Snapshots stats)))
     \<and> logs (fst (Collect_Snapshots (NewSnapshots ns c u) e w [])) =
         logs w @ concat (map (closeLine (NewSnapshots ns c u) e)
           (catalogURL (NewSnapshots ns c u) e
              # map (detailURL (NewSnapshots ns c u) e) (range_order e 0 (map fst srr))))"
proof -
  have r1: "filter (\<lambda>m. repositoryOf m = R1) (snd (Collect_Snapshots (NewSnapshots ns c u) e w [])) = []"
    using samples_of_repository [OF assms(1,2,3), of R1 w'] assms(4,6) by simp
  have r2: "filter (\<lambda>m. repositoryOf m = R2) (snd (Collect_Snapshots (NewSnapshots ns c u) e w [])) =
      expectedSamples (NewSnapshots ns c u) R2 stats"
    using samples_of_repository [OF assms(1,2,3), of R2 w'] assms(5,7) by simp
  show ?thesis
    using r1 r2 Collect_logs [OF assms(1,2,3), of "[]"]
    by (simp add: expectedSamples_def)
qed

theorem failed_repository_skipped_silently_witness:
  "snd (getAndParseURL exampleSnapshots exampleEnv (catalogURL exampleSnapshots exampleEnv)
          (unmarshal_repositories exampleEnv) emptyWorld) = Inr [(''R1'', ''fs''), (''R2'', ''fs'')]
   \<and> fair_range exampleEnv
   \<and> distinct (map fst [(''R1'', ''fs''), (''R2'', ''fs'')])
   \<and> ''R1'' \<in> fst ` set [(''R1'', ''fs''), (''R2'', ''fs'')]
   \<and> ''R2'' \<in> fst ` set [(''R1'', ''fs''), (''R2'', ''fs'')]
   \<and> snd (getAndParseURL exampleSnapshots exampleEnv (detailURL exampleSnapshots exampleEnv ''R1'')
          (unmarshal_stats exampleEnv) emptyWorld) = Inl (HTTPRequestFailed 500)
   \<and> snd (getAndParseURL exampleSnapshots exampleEnv (detailURL exampleSnapshots exampleEnv ''R2'')
          (unmarshal_stats exampleEnv) emptyWorld) = Inr exampleStats
   \<and> filter (\<lambda>m. repositoryOf m = ''R1'')
         (snd (Collect_Snapshots exampleSnapshots exampleEnv emptyWorld [])) = []
   \<and> map labelValues (filter (\<lambda>m. repositoryOf m = ''R2'')
         (snd (Collect_Snapshots exampleSnapshots exampleEnv emptyWorld []))) =
       replicate 3 [''R2''] @ replicate 7 [''R2'', ''FAILED'', ''7.10.2'']
   \<and> length (snd (Collect_Snapshots exampleSnapshots exampleEnv emptyWorld [])) = 10"
proof -
  have m: "''R1'' \<in> fst ` set [(''R1'', ''fs''), (''R2'', ''fs'')]"
    "''R2'' \<in> fst ` set [(''R1'', ''fs''), (''R2'', ''fs'')]" by simp_all
  have t: "filter (\<lambda>m. repositoryOf m = ''R1'')
         (snd (Collect_Snapshots exampleSnapshots exampleEnv emptyWorld [])) = []
     \<and> filter (\<lambda>m. repositoryOf m = ''R2'') (snd (Collect_Snapshots exampleSnapshots exampleEnv emptyWorld [])) =
       repositorySamples exampleSnapshots ''R2'' exampleStats
       @ (if Snapshots exampleStats = [] then []
          else snapshotSamples exampleSnapshots ''R2'' (last (Snapshots exampleStats)))"
    using failed_repository_skipped_silently
            [OF example_catalog [unfolded exampleSnapshots_def] example_fair example_distinct m
                example_R1 [unfolded exampleSnapshots_def]
                example_R2 [unfolded exampleSnapshots_def]]
    unfolding exampleSnapshots_def by blast
  have l: "map labelValues (repositorySamples exampleSnapshots ''R2'' exampleStats) =
      replicate 3 [''R2'']"
    by (simp add: repositorySamples_def exampleSnapshots_def NewSnapshots_def
        MustNewConstMetric_def numeral_eq_Suc)
  have n: "length (snd (Collect_Snapshots exampleSnapshots exampleEnv emptyWorld [])) = 10"
    by (simp add: Collect_Snapshots_def fetchAndDecodeSnapshotsStats_def getAndParseURL_def
        parseResponse_def deferredClose_def go_range_def collectRepository_def
        catalogURL_def detailURL_def exampleSnapshots_def exampleStats_def
        NewSnapshots_def exampleEnv_def exampleClient_def exampleURL_def example_url_String_def
        example_path_Join_def emptyWorld_def Let_def)
  show ?thesis
    using t example_catalog example_fair example_R1 example_R2 n
    by (simp add: example_values l)
qed


end
